theory Spec2Isabelle
  imports Main "HOL-Library.Sublist" "HOL-Library.Char_ord" "HOL-Library.List_Lexorder"
    "HOL-Library.Product_Lexorder" "HOL-Library.AList" "HOL-Library.Multiset"
begin

section \<open>Pull request size classes\<close>

text \<open>
  \<^verbatim>\<open>GitHubRepoUserAnalyzer._get_pr_size\<close> of \<^verbatim>\<open>github_repo_user_report.py\<close>:
  an ascending chain of strict comparisons on the total number of changed lines,
  the first one that holds decides. Python integers are unbounded, so the argument
  is an \<^typ>\<open>int\<close>; the result is the string the source returns.
\<close>

definition get_pr_size :: "int \<Rightarrow> string" where
  "get_pr_size changes =
     (if changes < 10 then ''xs''
      else if changes < 30 then ''s''
      else if changes < 100 then ''m''
      else if changes < 500 then ''l''
      else if changes < 1000 then ''xl''
      else ''xxl'')"


section \<open>Text helpers\<close>

text \<open>
  Python strings are modelled as HOL strings. The character classes of the source
  (\<^verbatim>\<open>\d\<close>, white space, \<^verbatim>\<open>str.lower\<close>) are modelled on ASCII; the symbols that
  the report template puts in front of its metric labels are written as their UTF-8 bytes.
  \<^verbatim>\<open>truthy\<close> is Python's truth value of an optional string: \<^verbatim>\<open>None\<close> (a missing key
  or a JSON null) and the empty string are false.
\<close>

definition truthy :: "string option \<Rightarrow> bool" where
  "truthy v = (case v of None \<Rightarrow> False | Some s \<Rightarrow> s \<noteq> [])"

definition lower_char :: "char \<Rightarrow> char" where
  "lower_char c =
     (case map_of (zip ''ABCDEFGHIJKLMNOPQRSTUVWXYZ'' ''abcdefghijklmnopqrstuvwxyz'') c of
        None \<Rightarrow> c
      | Some l \<Rightarrow> l)"

definition lower :: "string \<Rightarrow> string" where
  "lower s = map lower_char s"

section \<open>Pipeline 1: the records of a run\<close>

text \<open>
  Errors of a run: \<^verbatim>\<open>KeyError\<close> from a dictionary lookup and \<^verbatim>\<open>ValueError\<close> from
  \<^verbatim>\<open>datetime.strptime\<close>.
\<close>

datatype error = KeyError | ValueError

text \<open>
  A naive \<^verbatim>\<open>datetime\<close> is a point on a line: an integer number of seconds.
  \<^verbatim>\<open>datetime.strptime(s, "%Y-%m-%dT%H:%M:%SZ")\<close> belongs to the standard library and is
  a parameter \<open>strptime\<close> of the functions below, \<open>None\<close> where Python raises
  \<^verbatim>\<open>ValueError\<close>.
\<close>

type_synonym datetime = int

type_synonym 'a response = "nat \<times> 'a"

text \<open>
  The JSON objects the remote API returns. A field read with \<^verbatim>\<open>obj["k"]\<close> is a plain
  field; a field read with \<^verbatim>\<open>obj.get("k")\<close> is optional, \<open>None\<close> when the key is
  missing or null.
\<close>

record issue_json =
  ij_number :: int
  ij_title :: string
  ij_html_url :: string
  ij_state :: string
  ij_created_at :: string
  ij_updated_at :: string
  ij_closed_at :: "string option"
  ij_comments :: "int option"

record pull_json =
  pj_number :: int
  pj_title :: string
  pj_html_url :: string
  pj_state :: string
  pj_created_at :: string
  pj_updated_at :: string
  pj_closed_at :: "string option"
  pj_merged_at :: "string option"
  pj_additions :: "int option"
  pj_deletions :: "int option"
  pj_changed_files :: "int option"
  pj_commits :: "int option"

record event_json =
  ev_event :: "string option"
  ev_actor_login :: "string option"
  ev_created_at :: "string option"

record review_json =
  rj_user_login :: string
  rj_state :: string
  rj_submitted_at :: "string option"
  rj_body :: "string option"

record comment_json =
  cj_user_login :: string
  cj_created_at :: "string option"
  cj_body :: "string option"

record commit_json =
  cm_sha :: string
  cm_message :: string
  cm_author_date :: string
  cm_html_url :: string

text \<open>
  A review and a comment after the fetch has written the fields of the pull request or
  issue into them (\<^verbatim>\<open>review["pr_number"] = pr_number\<close>, ...).
\<close>

record user_review =
  ur_review :: review_json
  ur_pr_number :: int
  ur_pr_title :: string
  ur_pr_url :: string

record user_comment =
  uc_comment :: comment_json
  uc_issue_number :: int
  uc_issue_title :: string
  uc_issue_url :: string
  uc_issue_state :: string

text \<open>The dictionaries that \<^verbatim>\<open>analyze_activity\<close> stores in the statistics.\<close>

record pr_data =
  number :: int
  title :: string
  url :: string
  state :: string
  created_at :: string
  updated_at :: string
  closed_at :: "string option"
  merged_at :: "string option"
  additions :: int
  deletions :: int
  total_changes :: int
  size_class :: string
  changed_files :: int
  commits :: int

record review_data =
  pr_number :: int
  pr_title :: string
  pr_url :: string
  review_state :: string
  submitted_at :: "string option"
  review_body :: string

record issue_data =
  issue_no :: int
  issue_heading :: string
  issue_link :: string
  issue_status :: string
  issue_created_at :: "string option"
  issue_updated_at :: "string option"
  issue_closed_at :: "string option"
  comments_count :: int

record comment_data =
  issue_number :: int
  issue_title :: string
  issue_url :: string
  issue_state :: string
  comment_created_at :: "string option"
  comment_body :: string

record commit_data =
  sha :: string
  message :: string
  commit_date :: string
  commit_url :: string

text \<open>
  \<^verbatim>\<open>self.stats\<close>. The dictionary \<^verbatim>\<open>pr_sizes\<close> is an association list in insertion
  order. The three keys that \<^verbatim>\<open>analyze_activity\<close> adds while it runs are optional
  fields, \<open>None\<close> until they are set.
\<close>

record stats =
  pull_requests_opened :: "pr_data list"
  pull_requests_merged :: "pr_data list"
  pull_requests_closed :: "pr_data list"
  pull_requests_reviewed :: "review_data list"
  issues_opened :: "issue_data list"
  issues_closed :: "issue_data list"
  issue_comments :: "comment_data list"
  commits_authored :: "commit_data list"
  review_comments_given :: int
  total_additions :: int
  total_deletions :: int
  total_files_changed :: int
  pr_sizes :: "(string \<times> int) list"
  total_commits_in_prs :: "int option"
  total_reviews_given :: "nat option"
  unique_prs_reviewed :: "nat option"

definition init_stats :: stats where
  "init_stats =
     \<lparr>pull_requests_opened = [], pull_requests_merged = [], pull_requests_closed = [],
      pull_requests_reviewed = [], issues_opened = [], issues_closed = [],
      issue_comments = [], commits_authored = [], review_comments_given = 0,
      total_additions = 0, total_deletions = 0, total_files_changed = 0,
      pr_sizes = [(''xs'', 0), (''s'', 0), (''m'', 0), (''l'', 0), (''xl'', 0), (''xxl'', 0)],
      total_commits_in_prs = None, total_reviews_given = None, unique_prs_reviewed = None\<rparr>"

section \<open>Pipeline 1: the remote API\<close>

text \<open>
  Owner, repository, user and window are fixed for a run, so the remote is one field
  per endpoint the analyzer calls, giving the status code and the decoded JSON for the
  remaining argument (a page or an issue number). The paged searches are
  \<open>search_reviewed\<close> and \<open>search_commented\<close>.
\<close>

record remote =
  search_prs :: "issue_json list response"
  get_pull :: "int \<Rightarrow> pull_json response"
  search_closed_issues :: "issue_json list response"
  issue_events :: "int \<Rightarrow> event_json list response"
  search_reviewed :: "nat \<Rightarrow> issue_json list response"
  pull_reviews :: "int \<Rightarrow> review_json list response"
  list_commits :: "commit_json list response"
  search_issues :: "issue_json list response"
  search_commented :: "nat \<Rightarrow> issue_json list response"
  issue_comments_of :: "int \<Rightarrow> comment_json list response"

section \<open>Pipeline 1: the fetches\<close>

text \<open>
  \<^verbatim>\<open>fetch_user_prs\<close>: one search; a status other than 200 returns the empty list. Each
  item is then fetched in detail, and an item whose detail request fails is left out.
\<close>

definition fetch_user_prs :: "remote \<Rightarrow> pull_json list" where
  "fetch_user_prs r =
     (case search_prs r of (status_code, prs) \<Rightarrow>
        if status_code \<noteq> 200 then []
        else concat (map (\<lambda>pr_summary.
               case get_pull r (ij_number pr_summary) of (pr_status, pr) \<Rightarrow>
                 if pr_status = 200 then [pr] else []) prs))"

text \<open>
  \<^verbatim>\<open>fetch_user_closed_issues\<close>. The inner loop over the events of one issue stops at
  the first close event by the user inside the window; \<open>closed_by_user\<close> says whether there
  is one.
\<close>

fun closed_by_user ::
  "(string \<Rightarrow> datetime option) \<Rightarrow> datetime \<Rightarrow> string \<Rightarrow> event_json list \<Rightarrow> error + bool"
where
  "closed_by_user strptime since_date username [] = Inr False"
| "closed_by_user strptime since_date username (event # events) =
     (if ev_event event = Some ''closed''
         \<and> lower (case ev_actor_login event of None \<Rightarrow> [] | Some login \<Rightarrow> login) = lower username
      then (case ev_created_at event of
              None \<Rightarrow> closed_by_user strptime since_date username events
            | Some created \<Rightarrow>
                if created = [] then closed_by_user strptime since_date username events
                else (case strptime created of
                        None \<Rightarrow> Inl ValueError
                      | Some event_date \<Rightarrow>
                          if event_date \<ge> since_date then Inr True
                          else closed_by_user strptime since_date username events))
      else closed_by_user strptime since_date username events)"

fun user_closed_issues ::
  "(string \<Rightarrow> datetime option) \<Rightarrow> datetime \<Rightarrow> remote \<Rightarrow> string \<Rightarrow> issue_json list
     \<Rightarrow> error + issue_json list"
where
  "user_closed_issues strptime since_date r username [] = Inr []"
| "user_closed_issues strptime since_date r username (issue # all_issues) =
     (case issue_events r (ij_number issue) of (events_status, events) \<Rightarrow>
        if events_status = 200
        then (case closed_by_user strptime since_date username events of
                Inl e \<Rightarrow> Inl e
              | Inr closed \<Rightarrow>
                  (case user_closed_issues strptime since_date r username all_issues of
                     Inl e \<Rightarrow> Inl e
                   | Inr found \<Rightarrow> Inr (if closed then issue # found else found)))
        else user_closed_issues strptime since_date r username all_issues)"

definition fetch_user_closed_issues ::
  "(string \<Rightarrow> datetime option) \<Rightarrow> datetime \<Rightarrow> remote \<Rightarrow> string \<Rightarrow> error + issue_json list"
where
  "fetch_user_closed_issues strptime since_date r username =
     (case search_closed_issues r of (status_code, all_issues) \<Rightarrow>
        if status_code \<noteq> 200 then Inr []
        else user_closed_issues strptime since_date r username all_issues)"

text \<open>
  \<^verbatim>\<open>fetch_user_reviews\<close>: up to three pages. A status other than 200 and an empty page
  both leave the loop with \<^verbatim>\<open>break\<close>, and the function returns what the earlier pages
  gave.
\<close>

definition reviews_of_pr :: "remote \<Rightarrow> string \<Rightarrow> issue_json \<Rightarrow> user_review list" where
  "reviews_of_pr r username pr =
     (case pull_reviews r (ij_number pr) of (reviews_status, reviews) \<Rightarrow>
        if reviews_status = 200
        then map (\<lambda>review. \<lparr>ur_review = review, ur_pr_number = ij_number pr,
                              ur_pr_title = ij_title pr, ur_pr_url = ij_html_url pr\<rparr>)
               (filter (\<lambda>rv. lower (rj_user_login rv) = lower username) reviews)
        else [])"

function fetch_user_reviews_from ::
  "remote \<Rightarrow> string \<Rightarrow> nat \<Rightarrow> user_review list \<Rightarrow> user_review list"
where
  "fetch_user_reviews_from r username page all_reviews =
     (if page \<le> 3
      then (case search_reviewed r page of (status_code, reviewed_prs) \<Rightarrow>
              if status_code \<noteq> 200 then all_reviews
              else if reviewed_prs = [] then all_reviews
              else fetch_user_reviews_from r username (page + 1)
                     (all_reviews @ concat (map (reviews_of_pr r username) reviewed_prs)))
      else all_reviews)"
  by pat_completeness auto
termination
  by (relation "measure (\<lambda>(r, username, page, all_reviews). 4 - page)") auto

definition fetch_user_reviews :: "remote \<Rightarrow> string \<Rightarrow> user_review list" where
  "fetch_user_reviews r username = fetch_user_reviews_from r username 1 []"

text \<open>\<^verbatim>\<open>fetch_user_commits\<close> and \<^verbatim>\<open>fetch_user_issues\<close>: one request each.\<close>

definition fetch_user_commits :: "remote \<Rightarrow> commit_json list" where
  "fetch_user_commits r =
     (case list_commits r of (status_code, commit_list) \<Rightarrow>
        if status_code \<noteq> 200 then [] else commit_list)"

definition fetch_user_issues :: "remote \<Rightarrow> issue_json list" where
  "fetch_user_issues r =
     (case search_issues r of (status_code, issues) \<Rightarrow>
        if status_code \<noteq> 200 then [] else issues)"

text \<open>\<^verbatim>\<open>fetch_user_issue_comments\<close>: the same paging as the reviews.\<close>

definition comments_of_issue :: "remote \<Rightarrow> string \<Rightarrow> issue_json \<Rightarrow> user_comment list" where
  "comments_of_issue r username issue =
     (case issue_comments_of r (ij_number issue) of (comments_status, comments) \<Rightarrow>
        if comments_status = 200
        then map (\<lambda>comment. \<lparr>uc_comment = comment, uc_issue_number = ij_number issue,
                               uc_issue_title = ij_title issue, uc_issue_url = ij_html_url issue,
                               uc_issue_state = ij_state issue\<rparr>)
               (filter (\<lambda>c. lower (cj_user_login c) = lower username) comments)
        else [])"

function fetch_user_issue_comments_from ::
  "remote \<Rightarrow> string \<Rightarrow> nat \<Rightarrow> user_comment list \<Rightarrow> user_comment list"
where
  "fetch_user_issue_comments_from r username page all_comments =
     (if page \<le> 3
      then (case search_commented r page of (status_code, issues) \<Rightarrow>
              if status_code \<noteq> 200 then all_comments
              else if issues = [] then all_comments
              else fetch_user_issue_comments_from r username (page + 1)
                     (all_comments @ concat (map (comments_of_issue r username) issues)))
      else all_comments)"
  by pat_completeness auto
termination
  by (relation "measure (\<lambda>(r, username, page, all_comments). 4 - page)") auto

definition fetch_user_issue_comments :: "remote \<Rightarrow> string \<Rightarrow> user_comment list" where
  "fetch_user_issue_comments r username = fetch_user_issue_comments_from r username 1 []"

section \<open>Pipeline 1: the aggregation\<close>

text \<open>
  The loops of \<^verbatim>\<open>analyze_activity\<close>, one per category, each threading the statistics.
  \<open>pr_size_incr\<close> is \<^verbatim>\<open>self.stats["pr_sizes"][pr_size] += 1\<close>, which raises
  \<^verbatim>\<open>KeyError\<close> on a key that the dictionary does not hold.
\<close>

definition mk_pr_data :: "pull_json \<Rightarrow> pr_data" where
  "mk_pr_data pr =
     (let adds = (case pj_additions pr of None \<Rightarrow> 0 | Some a \<Rightarrow> a);
          dels = (case pj_deletions pr of None \<Rightarrow> 0 | Some d \<Rightarrow> d);
          changes = adds + dels;
          pr_size = get_pr_size changes
      in \<lparr>number = pj_number pr, title = pj_title pr, url = pj_html_url pr,
          state = pj_state pr, created_at = pj_created_at pr, updated_at = pj_updated_at pr,
          closed_at = pj_closed_at pr, merged_at = pj_merged_at pr,
          additions = adds, deletions = dels, total_changes = changes, size_class = pr_size,
          changed_files = (case pj_changed_files pr of None \<Rightarrow> 0 | Some n \<Rightarrow> n),
          commits = (case pj_commits pr of None \<Rightarrow> 0 | Some n \<Rightarrow> n)\<rparr>)"

definition pr_size_incr :: "string \<Rightarrow> (string \<times> int) list \<Rightarrow> error + (string \<times> int) list" where
  "pr_size_incr k d =
     (case map_of d k of
        None \<Rightarrow> Inl KeyError
      | Some v \<Rightarrow> Inr (AList.update k (v + 1) d))"

fun analyze_prs :: "pull_json list \<Rightarrow> stats \<times> int \<Rightarrow> error + (stats \<times> int)" where
  "analyze_prs [] acc = Inr acc"
| "analyze_prs (pr # prs) (st, commits_so_far) =
     (let pr_data = mk_pr_data pr;
          st1 = st\<lparr>pull_requests_opened := pull_requests_opened st @ [pr_data]\<rparr>;
          commits_now = commits_so_far + commits pr_data
      in case pr_size_incr (size_class pr_data) (pr_sizes st1) of
           Inl e \<Rightarrow> Inl e
         | Inr sizes \<Rightarrow>
             (let st2 = st1\<lparr>pr_sizes := sizes\<rparr>;
                  st3 = (if truthy (pj_merged_at pr)
                         then st2\<lparr>pull_requests_merged := pull_requests_merged st2 @ [pr_data]\<rparr>
                         else if pj_state pr = ''closed''
                         then st2\<lparr>pull_requests_closed := pull_requests_closed st2 @ [pr_data]\<rparr>
                         else st2);
                  st4 = st3\<lparr>total_additions := total_additions st3 + additions pr_data,
                            total_deletions := total_deletions st3 + deletions pr_data,
                            total_files_changed := total_files_changed st3 + changed_files pr_data\<rparr>
              in analyze_prs prs (st4, commits_now)))"

definition mk_review_data :: "user_review \<Rightarrow> review_data" where
  "mk_review_data review =
     \<lparr>pr_number = ur_pr_number review, pr_title = ur_pr_title review,
      pr_url = ur_pr_url review, review_state = rj_state (ur_review review),
      submitted_at = rj_submitted_at (ur_review review),
      review_body = take 200 (case rj_body (ur_review review) of None \<Rightarrow> [] | Some b \<Rightarrow> b)\<rparr>"

fun analyze_reviews ::
  "(string \<Rightarrow> datetime option) \<Rightarrow> datetime \<Rightarrow> user_review list \<Rightarrow> stats \<Rightarrow> error + stats"
where
  "analyze_reviews strptime since_date [] st = Inr st"
| "analyze_reviews strptime since_date (review # reviews) st =
     (let keep = st\<lparr>pull_requests_reviewed := pull_requests_reviewed st @ [mk_review_data review]\<rparr>
      in case rj_submitted_at (ur_review review) of
           None \<Rightarrow> analyze_reviews strptime since_date reviews keep
         | Some ts \<Rightarrow>
             if ts = [] then analyze_reviews strptime since_date reviews keep
             else (case strptime ts of
                     None \<Rightarrow> Inl ValueError
                   | Some review_date \<Rightarrow>
                       if review_date < since_date
                       then analyze_reviews strptime since_date reviews st
                       else analyze_reviews strptime since_date reviews keep))"

definition count_reviews :: "stats \<Rightarrow> stats" where
  "count_reviews st =
     st\<lparr>total_reviews_given := Some (length (pull_requests_reviewed st)),
        unique_prs_reviewed := Some (card (set (map pr_number (pull_requests_reviewed st))))\<rparr>"

definition mk_issue_data :: "issue_json \<Rightarrow> issue_data" where
  "mk_issue_data issue =
     \<lparr>issue_no = ij_number issue, issue_heading = ij_title issue, issue_link = ij_html_url issue,
      issue_status = ij_state issue, issue_created_at = Some (ij_created_at issue),
      issue_updated_at = Some (ij_updated_at issue), issue_closed_at = ij_closed_at issue,
      comments_count = (case ij_comments issue of None \<Rightarrow> 0 | Some n \<Rightarrow> n)\<rparr>"

definition mk_closed_issue_data :: "issue_json \<Rightarrow> issue_data" where
  "mk_closed_issue_data issue =
     \<lparr>issue_no = ij_number issue, issue_heading = ij_title issue, issue_link = ij_html_url issue,
      issue_status = ij_state issue, issue_created_at = Some (ij_created_at issue),
      issue_updated_at = None, issue_closed_at = ij_closed_at issue,
      comments_count = (case ij_comments issue of None \<Rightarrow> 0 | Some n \<Rightarrow> n)\<rparr>"

definition mk_comment_data :: "user_comment \<Rightarrow> comment_data" where
  "mk_comment_data comment =
     \<lparr>issue_number = uc_issue_number comment, issue_title = uc_issue_title comment,
      issue_url = uc_issue_url comment, issue_state = uc_issue_state comment,
      comment_created_at = cj_created_at (uc_comment comment),
      comment_body = take 200 (case cj_body (uc_comment comment) of None \<Rightarrow> [] | Some b \<Rightarrow> b)\<rparr>"

fun analyze_comments ::
  "(string \<Rightarrow> datetime option) \<Rightarrow> datetime \<Rightarrow> user_comment list \<Rightarrow> stats \<Rightarrow> error + stats"
where
  "analyze_comments strptime since_date [] st = Inr st"
| "analyze_comments strptime since_date (comment # comments) st =
     (let keep = st\<lparr>issue_comments := issue_comments st @ [mk_comment_data comment]\<rparr>
      in case cj_created_at (uc_comment comment) of
           None \<Rightarrow> analyze_comments strptime since_date comments keep
         | Some ts \<Rightarrow>
             if ts = [] then analyze_comments strptime since_date comments keep
             else (case strptime ts of
                     None \<Rightarrow> Inl ValueError
                   | Some comment_date \<Rightarrow>
                       if comment_date < since_date
                       then analyze_comments strptime since_date comments st
                       else analyze_comments strptime since_date comments keep))"

definition mk_commit_data :: "commit_json \<Rightarrow> commit_data" where
  "mk_commit_data commit =
     \<lparr>sha = take 7 (cm_sha commit),
      message = takeWhile (\<lambda>c. c \<noteq> CHR 0x0A) (cm_message commit),
      commit_date = cm_author_date commit, commit_url = cm_html_url commit\<rparr>"

text \<open>
  \<^verbatim>\<open>analyze_activity\<close>. The window starts \<open>days\<close> days before its end, and the end is
  the current time when none is given. The six categories are fetched and folded into
  the statistics in the order of the source; an exception ends the run with its error.
\<close>

definition analyze_activity ::
  "(string \<Rightarrow> datetime option) \<Rightarrow> datetime \<Rightarrow> remote \<Rightarrow> string \<Rightarrow> int \<Rightarrow> datetime option
     \<Rightarrow> stats \<Rightarrow> error + stats"
where
  "analyze_activity strptime now r username days end_date st =
     (let end_date = (case end_date of None \<Rightarrow> now | Some e \<Rightarrow> e);
          since_date = end_date - 86400 * days
      in case analyze_prs (fetch_user_prs r) (st, 0) of
           Inl e \<Rightarrow> Inl e
         | Inr (st1, commits_in_prs) \<Rightarrow>
        (case analyze_reviews strptime since_date (fetch_user_reviews r username)
                (st1\<lparr>total_commits_in_prs := Some commits_in_prs\<rparr>) of
           Inl e \<Rightarrow> Inl e
         | Inr st2 \<Rightarrow>
        (let st3 = count_reviews st2;
             st4 = st3\<lparr>issues_opened := issues_opened st3 @ map mk_issue_data (fetch_user_issues r)\<rparr>
         in case fetch_user_closed_issues strptime since_date r username of
              Inl e \<Rightarrow> Inl e
            | Inr closed_issues \<Rightarrow>
        (let st5 = st4\<lparr>issues_closed := issues_closed st4 @ map mk_closed_issue_data closed_issues\<rparr>
         in case analyze_comments strptime since_date (fetch_user_issue_comments r username) st5 of
              Inl e \<Rightarrow> Inl e
            | Inr st6 \<Rightarrow>
                Inr (st6\<lparr>commits_authored :=
                          commits_authored st6 @ map mk_commit_data (fetch_user_commits r)\<rparr>)))))"

section \<open>Pipeline 2: reading a metric out of a scraped report\<close>

text \<open>
  \<open>contains pat s\<close> is Python's \<^verbatim>\<open>pat in s\<close> on strings. \<open>is_digit\<close> is the class
  \<^verbatim>\<open>\d\<close>, and \<open>int_of_digits\<close> is \<^verbatim>\<open>int\<close> on a string of digits.
\<close>

fun contains :: "string \<Rightarrow> string \<Rightarrow> bool" where
  "contains pat [] = (pat = [])"
| "contains pat (c # cs) = (prefix pat (c # cs) \<or> contains pat cs)"

definition is_digit :: "char \<Rightarrow> bool" where
  "is_digit c = (c \<in> set ''0123456789'')"

definition digit_value :: "char \<Rightarrow> int" where
  "digit_value c = int (of_char c) - 48"

definition int_of_digits :: "string \<Rightarrow> int" where
  "int_of_digits s = foldl (\<lambda>acc c. 10 * acc + digit_value c) 0 s"

text \<open>
  The two local functions \<^verbatim>\<open>get_metric_value\<close> of \<^verbatim>\<open>generate_index_html\<close>; the
  argument \<open>items\<close> is \<^verbatim>\<open>metrics.items()\<close>, the entries of the dictionary in insertion
  order. The first, of the table of single reports, removes with
  \<^verbatim>\<open>re.sub(r'[^\d+\-,]', '', value)\<close> and returns a string. The second, of the summary by
  user, removes with \<^verbatim>\<open>re.sub(r'[^\d]', '', value)\<close> and returns an integer.
\<close>

fun get_metric_value :: "string \<Rightarrow> (string \<times> string) list \<Rightarrow> string" where
  "get_metric_value label_pattern [] = ''0''"
| "get_metric_value label_pattern ((key, v) # items) =
     (if contains label_pattern key
      then (let clean_value =
                  filter (\<lambda>c. is_digit c \<or> c = CHR ''+'' \<or> c = CHR ''-'' \<or> c = CHR '','') v
            in if clean_value \<noteq> [] then clean_value else ''0'')
      else get_metric_value label_pattern items)"

fun get_metric_value_summary :: "string \<Rightarrow> (string \<times> string) list \<Rightarrow> int" where
  "get_metric_value_summary label_pattern [] = 0"
| "get_metric_value_summary label_pattern ((key, v) # items) =
     (if contains label_pattern key
      then (let clean_value = filter is_digit v
            in if clean_value \<noteq> [] then int_of_digits clean_value else 0)
      else get_metric_value_summary label_pattern items)"

section \<open>Pipeline 2: the summary by user\<close>

text \<open>
  A scraped report, as \<^verbatim>\<open>parse_report_file\<close> returns it, and the entry of
  \<^verbatim>\<open>user_summary\<close>, a \<^verbatim>\<open>defaultdict\<close> whose missing entries start at
  \<^verbatim>\<open>{'prs_merged': 0, 'date': None}\<close>. Dates compare as Python strings do: by code
  point, a proper prefix first.
\<close>

record report =
  report_filename :: string
  report_date :: string
  report_username :: string
  report_repo :: string
  report_metrics :: "(string \<times> string) list"

record summary =
  prs_merged :: int
  summary_date :: "string option"

text \<open>
  \<^verbatim>\<open>reports.sort(key=lambda x: (x['date'], x['username']), reverse=True)\<close>: a stable
  sort in descending order, which keeps reports of equal key in their order.
\<close>

definition sort_reports :: "report list \<Rightarrow> report list" where
  "sort_reports reports =
     rev (sort_key (\<lambda>x. (report_date x, report_username x)) (rev reports))"

definition summary_step :: "report \<Rightarrow> (string \<times> summary) list \<Rightarrow> (string \<times> summary) list" where
  "summary_step rep user_summary =
     (let username = report_username rep;
          entry = (case map_of user_summary username of
                     None \<Rightarrow> \<lparr>prs_merged = 0, summary_date = None\<rparr>
                   | Some e \<Rightarrow> e);
          merged = get_metric_value_summary ''PRs Merged'' (report_metrics rep);
          entry1 = entry\<lparr>prs_merged := prs_merged entry + merged\<rparr>;
          entry2 = (case summary_date entry1 of
                      None \<Rightarrow> entry1\<lparr>summary_date := Some (report_date rep)\<rparr>
                    | Some d \<Rightarrow>
                        if report_date rep > d
                        then entry1\<lparr>summary_date := Some (report_date rep)\<rparr>
                        else entry1)
      in AList.update username entry2 user_summary)"

definition user_summary_of :: "report list \<Rightarrow> (string \<times> summary) list" where
  "user_summary_of reports = fold summary_step (sort_reports reports) []"

text \<open>
  The rows of the summary table, one for each key of \<^verbatim>\<open>user_summary\<close> in sorted order:
  date, username, real name (the username where \<^verbatim>\<open>user_names\<close> has none) and the
  total of merged pull requests.
\<close>

definition summary_rows ::
  "(string \<rightharpoonup> string) \<Rightarrow> report list \<Rightarrow> (string option \<times> string \<times> string \<times> int) list"
where
  "summary_rows user_names reports =
     (let user_summary = user_summary_of reports
      in map (\<lambda>username.
                let entry = (case map_of user_summary username of
                               None \<Rightarrow> \<lparr>prs_merged = 0, summary_date = None\<rparr>
                             | Some e \<Rightarrow> e);
                    real_name = (case user_names username of None \<Rightarrow> username | Some n \<Rightarrow> n)
                in (summary_date entry, username, real_name, prs_merged entry))
           (sort (map fst user_summary)))"

section \<open>An example run\<close>

text \<open>
  A small remote for the user \<open>bob\<close>, used to run the functions above on concrete data.
  The window ends on 2024-01-08 and is seven days long, so it starts at
  2024-01-01T00:00:00Z, which is second 1704067200. \<open>example_strptime\<close> gives the
  seconds of the timestamps that occur and fails on every other string.
\<close>

definition example_strptime :: "string \<Rightarrow> datetime option" where
  "example_strptime =
     map_of [(''2023-12-25T10:00:00Z'', 1703498400), (''2024-01-05T12:00:00Z'', 1704456000)]"

definition example_pull :: "int \<Rightarrow> string \<Rightarrow> string option \<Rightarrow> int \<Rightarrow> int \<Rightarrow> pull_json" where
  "example_pull n st merged adds dels =
     \<lparr>pj_number = n, pj_title = ''change'', pj_html_url = ''https://example.org/pull'',
      pj_state = st, pj_created_at = ''2024-01-05T12:00:00Z'',
      pj_updated_at = ''2024-01-05T12:00:00Z'', pj_closed_at = merged, pj_merged_at = merged,
      pj_additions = Some adds, pj_deletions = Some dels, pj_changed_files = Some 1,
      pj_commits = Some 1\<rparr>"

definition example_item :: "int \<Rightarrow> issue_json" where
  "example_item n =
     \<lparr>ij_number = n, ij_title = ''item'', ij_html_url = ''https://example.org/item'',
      ij_state = ''open'', ij_created_at = ''2024-01-05T12:00:00Z'',
      ij_updated_at = ''2024-01-05T12:00:00Z'', ij_closed_at = None, ij_comments = None\<rparr>"

definition example_review :: "string \<Rightarrow> string option \<Rightarrow> review_json" where
  "example_review login ts =
     \<lparr>rj_user_login = login, rj_state = ''COMMENTED'', rj_submitted_at = ts, rj_body = Some ''ok''\<rparr>"

definition example_comment :: "string \<Rightarrow> string option \<Rightarrow> comment_json" where
  "example_comment login ts =
     \<lparr>cj_user_login = login, cj_created_at = ts, cj_body = Some ''thanks''\<rparr>"

definition example_remote :: remote where
  "example_remote =
     \<lparr>search_prs = (200, [example_item 1, example_item 2, example_item 3]),
      get_pull = (\<lambda>n. (200,
         if n = 1 then example_pull 1 ''closed'' (Some ''2024-01-05T12:00:00Z'') 5 4
         else if n = 2 then example_pull 2 ''closed'' None 600 400
         else example_pull n ''open'' None 10 0)),
      search_closed_issues = (200, []),
      issue_events = (\<lambda>n. (200, [])),
      search_reviewed = (\<lambda>page. (200, if page = 1 then [example_item 7] else [])),
      pull_reviews = (\<lambda>n. (200,
         [example_review ''bob'' (Some ''2023-12-25T10:00:00Z''),
          example_review ''Bob'' (Some ''2024-01-05T12:00:00Z''),
          example_review ''bob'' None,
          example_review ''alice'' (Some ''2024-01-05T12:00:00Z'')])),
      list_commits = (200, [\<lparr>cm_sha = ''0123456789abcdef'', cm_message = ''fix'',
                             cm_author_date = ''2024-01-05T12:00:00Z'',
                             cm_html_url = ''https://example.org/commit''\<rparr>]),
      search_issues = (200, [example_item 4]),
      search_commented = (\<lambda>page. (200, if page = 1 then [example_item 4] else [])),
      issue_comments_of = (\<lambda>n. (200,
         [example_comment ''bob'' (Some ''2023-12-25T10:00:00Z''),
          example_comment ''bob'' None,
          example_comment ''bob'' (Some ''2024-01-05T12:00:00Z'')]))\<rparr>"

definition example_run :: "remote \<Rightarrow> error + stats" where
  "example_run r = analyze_activity example_strptime 0 r ''bob'' 7 (Some 1704672000) init_stats"

text \<open>
  What a run retained, for reading off a result: pull request number and submission time
  of each review, and issue number and creation time of each comment. A failed run has
  none.
\<close>

definition reviewed_of :: "error + stats \<Rightarrow> (int \<times> string option) list" where
  "reviewed_of res =
     (case res of
        Inl e \<Rightarrow> []
      | Inr st \<Rightarrow> map (\<lambda>rd. (pr_number rd, submitted_at rd)) (pull_requests_reviewed st))"

definition commented_of :: "error + stats \<Rightarrow> (int \<times> string option) list" where
  "commented_of res =
     (case res of
        Inl e \<Rightarrow> []
      | Inr st \<Rightarrow> map (\<lambda>cd. (issue_number cd, comment_created_at cd)) (issue_comments st))"

section \<open>Properties of the size classification\<close>

text \<open>
  C1. For every total of changes that is not negative, the size class is one of the six
  names, and each name is returned on exactly one interval:
  below 10 it is xs, from 10 below 30 it is s, from 30 below 100 it is m, from 100 below
  500 it is l, from 500 below 1000 it is xl, and from 1000 on it is xxl. The intervals
  follow each other without a gap or an overlap; the boundary values
  9, 10, 29, 30, 999 and 1000 fall as the specification lists them.
\<close>

theorem get_pr_size_partition:
  "0 \<le> changes \<Longrightarrow>
     get_pr_size changes \<in> {''xs'', ''s'', ''m'', ''l'', ''xl'', ''xxl''}
     \<and> (get_pr_size changes = ''xs'' \<longleftrightarrow> changes < 10)
     \<and> (get_pr_size changes = ''s'' \<longleftrightarrow> 10 \<le> changes \<and> changes < 30)
     \<and> (get_pr_size changes = ''m'' \<longleftrightarrow> 30 \<le> changes \<and> changes < 100)
     \<and> (get_pr_size changes = ''l'' \<longleftrightarrow> 100 \<le> changes \<and> changes < 500)
     \<and> (get_pr_size changes = ''xl'' \<longleftrightarrow> 500 \<le> changes \<and> changes < 1000)
     \<and> (get_pr_size changes = ''xxl'' \<longleftrightarrow> 1000 \<le> changes)
     \<and> get_pr_size 9 = ''xs'' \<and> get_pr_size 10 = ''s'' \<and> get_pr_size 29 = ''s''
     \<and> get_pr_size 30 = ''m'' \<and> get_pr_size 999 = ''xl'' \<and> get_pr_size 1000 = ''xxl''"
  by (simp add: get_pr_size_def)

theorem get_pr_size_partition_witness:
  "(0::int) \<le> 499 \<and> get_pr_size 499 = ''l'' \<and> get_pr_size 499 \<noteq> ''xl''"
  using get_pr_size_partition [of 499] by simp

section \<open>The aggregation, category by category\<close>


lemma get_pr_size_key:
  "get_pr_size n \<in> set [''xs'', ''s'', ''m'', ''l'', ''xl'', ''xxl'']"
  by (simp add: get_pr_size_def)

lemma sum_snd_update:
  "map_of d k = Some v \<Longrightarrow>
     sum_list (map snd (AList.update k w d)) = sum_list (map snd d) - v + (w::int)"
  by (induction d) (auto split: if_splits)

lemma pr_size_incr_result:
  assumes "k \<in> set (map fst d)"
  shows "\<exists>d'. pr_size_incr k d = Inr d' \<and> map fst d' = map fst d
           \<and> sum_list (map snd d') = sum_list (map snd d) + 1"
proof -
  from assms obtain v where v: "map_of d k = Some v"
    by (metis map_of_eq_None_iff not_Some_eq set_map)
  have "map fst (AList.update k (v + 1) d) = map fst d"
    using assms by (simp add: update_keys)
  moreover have "sum_list (map snd (AList.update k (v + 1) d)) = sum_list (map snd d) + 1"
    using sum_snd_update [OF v, of "v + 1"] by simp
  ultimately show ?thesis
    using v by (simp add: pr_size_incr_def)
qed

lemma analyze_prs_result:
  assumes "set [''xs'', ''s'', ''m'', ''l'', ''xl'', ''xxl''] \<subseteq> set (map fst (pr_sizes st))"
  shows "\<exists>st' c'. analyze_prs prs (st, c) = Inr (st', c')
     \<and> pull_requests_opened st' = pull_requests_opened st @ map mk_pr_data prs
     \<and> pull_requests_merged st' = pull_requests_merged st
          @ map mk_pr_data (filter (\<lambda>pr. truthy (pj_merged_at pr)) prs)
     \<and> pull_requests_closed st' = pull_requests_closed st
          @ map mk_pr_data (filter (\<lambda>pr. \<not> truthy (pj_merged_at pr) \<and> pj_state pr = ''closed'') prs)
     \<and> map fst (pr_sizes st') = map fst (pr_sizes st)
     \<and> sum_list (map snd (pr_sizes st')) = sum_list (map snd (pr_sizes st)) + int (length prs)
     \<and> pull_requests_reviewed st' = pull_requests_reviewed st
     \<and> issues_opened st' = issues_opened st
     \<and> issues_closed st' = issues_closed st
     \<and> issue_comments st' = issue_comments st
     \<and> commits_authored st' = commits_authored st"
  using assms
proof (induction prs arbitrary: st c)
  case Nil
  then show ?case by simp
next
  case (Cons pr prs)
  have "size_class (mk_pr_data pr) \<in> set [''xs'', ''s'', ''m'', ''l'', ''xl'', ''xxl'']"
    unfolding mk_pr_data_def Let_def using get_pr_size_key by simp
  with Cons.prems have "size_class (mk_pr_data pr) \<in> set (map fst (pr_sizes st))"
    by blast
  from pr_size_incr_result [OF this]
  obtain d' where d': "pr_size_incr (size_class (mk_pr_data pr)) (pr_sizes st) = Inr d'"
    "map fst d' = map fst (pr_sizes st)"
    "sum_list (map snd d') = sum_list (map snd (pr_sizes st)) + 1"
    by blast
  show ?case
  proof (cases "truthy (pj_merged_at pr)")
    case True
    let ?st4 = "st\<lparr>pull_requests_opened := pull_requests_opened st @ [mk_pr_data pr],
                   pr_sizes := d',
                   pull_requests_merged := pull_requests_merged st @ [mk_pr_data pr],
                   total_additions := total_additions st + additions (mk_pr_data pr),
                   total_deletions := total_deletions st + deletions (mk_pr_data pr),
                   total_files_changed := total_files_changed st + changed_files (mk_pr_data pr)\<rparr>"
    have step: "analyze_prs (pr # prs) (st, c) = analyze_prs prs (?st4, c + commits (mk_pr_data pr))"
      using d'(1) True by (simp add: Let_def)
    have "set [''xs'', ''s'', ''m'', ''l'', ''xl'', ''xxl''] \<subseteq> set (map fst (pr_sizes ?st4))"
      using Cons.prems d'(2) by simp
    from Cons.IH [OF this, of "c + commits (mk_pr_data pr)"] show ?thesis
      unfolding step using True d'(2,3) by auto
  next
    case False
    show ?thesis
    proof (cases "pj_state pr = ''closed''")
      case True
      let ?st4 = "st\<lparr>pull_requests_opened := pull_requests_opened st @ [mk_pr_data pr],
                   pr_sizes := d',
                   pull_requests_closed := pull_requests_closed st @ [mk_pr_data pr],
                   total_additions := total_additions st + additions (mk_pr_data pr),
                   total_deletions := total_deletions st + deletions (mk_pr_data pr),
                   total_files_changed := total_files_changed st + changed_files (mk_pr_data pr)\<rparr>"
      have step: "analyze_prs (pr # prs) (st, c) = analyze_prs prs (?st4, c + commits (mk_pr_data pr))"
        using d'(1) True False by (simp add: Let_def)
      have "set [''xs'', ''s'', ''m'', ''l'', ''xl'', ''xxl''] \<subseteq> set (map fst (pr_sizes ?st4))"
        using Cons.prems d'(2) by simp
      from Cons.IH [OF this, of "c + commits (mk_pr_data pr)"] show ?thesis
        unfolding step using True False d'(2,3) by auto
    next
      case open_pr: False
      let ?st4 = "st\<lparr>pull_requests_opened := pull_requests_opened st @ [mk_pr_data pr],
                   pr_sizes := d',
                   total_additions := total_additions st + additions (mk_pr_data pr),
                   total_deletions := total_deletions st + deletions (mk_pr_data pr),
                   total_files_changed := total_files_changed st + changed_files (mk_pr_data pr)\<rparr>"
      have step: "analyze_prs (pr # prs) (st, c) = analyze_prs prs (?st4, c + commits (mk_pr_data pr))"
        using d'(1) open_pr False by (simp add: Let_def)
      have "set [''xs'', ''s'', ''m'', ''l'', ''xl'', ''xxl''] \<subseteq> set (map fst (pr_sizes ?st4))"
        using Cons.prems d'(2) by simp
      from Cons.IH [OF this, of "c + commits (mk_pr_data pr)"] show ?thesis
        unfolding step using open_pr False d'(2,3) by auto
    qed
  qed
qed


lemma analyze_reviews_result:
  "analyze_reviews strptime since_date reviews st = Inr st' \<Longrightarrow>
     st' = st\<lparr>pull_requests_reviewed := pull_requests_reviewed st
             @ map mk_review_data
                 (filter (\<lambda>rv. case rj_submitted_at (ur_review rv) of
                                  None \<Rightarrow> True
                                | Some ts \<Rightarrow> ts = [] \<or> (\<exists>t. strptime ts = Some t \<and> since_date \<le> t))
                    reviews)\<rparr>"
proof (induction reviews arbitrary: st)
  case Nil
  then show ?case by simp
next
  case (Cons review reviews)
  let ?keep = "st\<lparr>pull_requests_reviewed := pull_requests_reviewed st @ [mk_review_data review]\<rparr>"
  show ?case
  proof (cases "rj_submitted_at (ur_review review)")
    case None
    with Cons.prems have "analyze_reviews strptime since_date reviews ?keep = Inr st'"
      by (simp add: Let_def)
    from Cons.IH [OF this] show ?thesis using None by simp
  next
    case (Some ts)
    show ?thesis
    proof (cases "ts = []")
      case True
      with Some Cons.prems have "analyze_reviews strptime since_date reviews ?keep = Inr st'"
        by (simp add: Let_def)
      from Cons.IH [OF this] show ?thesis using Some True by simp
    next
      case False
      with Some Cons.prems obtain t where t: "strptime ts = Some t"
        by (auto simp: Let_def split: option.splits)
      show ?thesis
      proof (cases "t < since_date")
        case True
        with Some False t Cons.prems have "analyze_reviews strptime since_date reviews st = Inr st'"
          by (simp add: Let_def)
        from Cons.IH [OF this] show ?thesis using Some False t True by simp
      next
        case recent: False
        with Some False t Cons.prems have "analyze_reviews strptime since_date reviews ?keep = Inr st'"
          by (simp add: Let_def)
        from Cons.IH [OF this] show ?thesis using Some False t recent by simp
      qed
    qed
  qed
qed

lemma analyze_comments_result:
  "analyze_comments strptime since_date comments st = Inr st' \<Longrightarrow>
     st' = st\<lparr>issue_comments := issue_comments st
             @ map mk_comment_data
                 (filter (\<lambda>c. case cj_created_at (uc_comment c) of
                                  None \<Rightarrow> True
                                | Some ts \<Rightarrow> ts = [] \<or> (\<exists>t. strptime ts = Some t \<and> since_date \<le> t))
                    comments)\<rparr>"
proof (induction comments arbitrary: st)
  case Nil
  then show ?case by simp
next
  case (Cons comment comments)
  let ?keep = "st\<lparr>issue_comments := issue_comments st @ [mk_comment_data comment]\<rparr>"
  show ?case
  proof (cases "cj_created_at (uc_comment comment)")
    case None
    with Cons.prems have "analyze_comments strptime since_date comments ?keep = Inr st'"
      by (simp add: Let_def)
    from Cons.IH [OF this] show ?thesis using None by simp
  next
    case (Some ts)
    show ?thesis
    proof (cases "ts = []")
      case True
      with Some Cons.prems have "analyze_comments strptime since_date comments ?keep = Inr st'"
        by (simp add: Let_def)
      from Cons.IH [OF this] show ?thesis using Some True by simp
    next
      case False
      with Some Cons.prems obtain t where t: "strptime ts = Some t"
        by (auto simp: Let_def split: option.splits)
      show ?thesis
      proof (cases "t < since_date")
        case True
        with Some False t Cons.prems have "analyze_comments strptime since_date comments st = Inr st'"
          by (simp add: Let_def)
        from Cons.IH [OF this] show ?thesis using Some False t True by simp
      next
        case recent: False
        with Some False t Cons.prems have "analyze_comments strptime since_date comments ?keep = Inr st'"
          by (simp add: Let_def)
        from Cons.IH [OF this] show ?thesis using Some False t recent by simp
      qed
    qed
  qed
qed

lemma analyze_activity_result:
  assumes run: "analyze_activity strptime now r username days end_date init_stats = Inr st"
  shows "\<exists>closed_issues.
     fetch_user_closed_issues strptime
        ((case end_date of None \<Rightarrow> now | Some e \<Rightarrow> e) - 86400 * days) r username = Inr closed_issues
     \<and> pull_requests_opened st = map mk_pr_data (fetch_user_prs r)
     \<and> pull_requests_merged st
         = map mk_pr_data (filter (\<lambda>pr. truthy (pj_merged_at pr)) (fetch_user_prs r))
     \<and> pull_requests_closed st
         = map mk_pr_data (filter (\<lambda>pr. \<not> truthy (pj_merged_at pr) \<and> pj_state pr = ''closed'')
             (fetch_user_prs r))
     \<and> map fst (pr_sizes st) = [''xs'', ''s'', ''m'', ''l'', ''xl'', ''xxl'']
     \<and> sum_list (map snd (pr_sizes st)) = int (length (fetch_user_prs r))
     \<and> pull_requests_reviewed st
         = map mk_review_data
             (filter (\<lambda>rv. case rj_submitted_at (ur_review rv) of
                        None \<Rightarrow> True
                      | Some ts \<Rightarrow> ts = [] \<or> (\<exists>t. strptime ts = Some t
                          \<and> (case end_date of None \<Rightarrow> now | Some e \<Rightarrow> e) - 86400 * days \<le> t))
                (fetch_user_reviews r username))
     \<and> total_reviews_given st = Some (length (pull_requests_reviewed st))
     \<and> unique_prs_reviewed st = Some (card (set (map pr_number (pull_requests_reviewed st))))
     \<and> issues_opened st = map mk_issue_data (fetch_user_issues r)
     \<and> issues_closed st = map mk_closed_issue_data closed_issues
     \<and> issue_comments st
         = map mk_comment_data
             (filter (\<lambda>c. case cj_created_at (uc_comment c) of
                        None \<Rightarrow> True
                      | Some ts \<Rightarrow> ts = [] \<or> (\<exists>t. strptime ts = Some t
                          \<and> (case end_date of None \<Rightarrow> now | Some e \<Rightarrow> e) - 86400 * days \<le> t))
                (fetch_user_issue_comments r username))
     \<and> commits_authored st = map mk_commit_data (fetch_user_commits r)"
proof -
  define since_date where "since_date = (case end_date of None \<Rightarrow> now | Some e \<Rightarrow> e) - 86400 * days"
  have keys: "set [''xs'', ''s'', ''m'', ''l'', ''xl'', ''xxl''] \<subseteq> set (map fst (pr_sizes init_stats))"
    by (simp add: init_stats_def)
  from analyze_prs_result [OF keys, of "fetch_user_prs r" 0]
  obtain st1 c1 where prs: "analyze_prs (fetch_user_prs r) (init_stats, 0) = Inr (st1, c1)"
    and st1: "pull_requests_opened st1 = map mk_pr_data (fetch_user_prs r)"
      "pull_requests_merged st1
         = map mk_pr_data (filter (\<lambda>pr. truthy (pj_merged_at pr)) (fetch_user_prs r))"
      "pull_requests_closed st1
         = map mk_pr_data (filter (\<lambda>pr. \<not> truthy (pj_merged_at pr) \<and> pj_state pr = ''closed'')
             (fetch_user_prs r))"
      "map fst (pr_sizes st1) = [''xs'', ''s'', ''m'', ''l'', ''xl'', ''xxl'']"
      "sum_list (map snd (pr_sizes st1)) = int (length (fetch_user_prs r))"
      "pull_requests_reviewed st1 = []" "issues_opened st1 = []" "issues_closed st1 = []"
      "issue_comments st1 = []" "commits_authored st1 = []"
    by (auto simp: init_stats_def)
  from run prs obtain st2 where
    rv: "analyze_reviews strptime since_date (fetch_user_reviews r username)
           (st1\<lparr>total_commits_in_prs := Some c1\<rparr>) = Inr st2"
    by (auto simp: analyze_activity_def Let_def since_date_def split: sum.splits)
  from run prs rv obtain closed_issues where
    ci: "fetch_user_closed_issues strptime since_date r username = Inr closed_issues"
    by (auto simp: analyze_activity_def Let_def since_date_def split: sum.splits)
  define st5 where "st5 = (count_reviews st2)\<lparr>issues_opened :=
      issues_opened (count_reviews st2) @ map mk_issue_data (fetch_user_issues r),
      issues_closed := issues_closed (count_reviews st2) @ map mk_closed_issue_data closed_issues\<rparr>"
  from run prs rv ci obtain st6 where
    cm: "analyze_comments strptime since_date (fetch_user_issue_comments r username) st5 = Inr st6"
    and st: "st = st6\<lparr>commits_authored := commits_authored st6 @ map mk_commit_data (fetch_user_commits r)\<rparr>"
    by (auto simp: analyze_activity_def Let_def since_date_def st5_def split: sum.splits)
  note r2 = analyze_reviews_result [OF rv]
  note r6 = analyze_comments_result [OF cm]
  show ?thesis
    unfolding since_date_def [symmetric]
    by (rule exI [of _ closed_issues]) (simp add: st r6 st5_def count_reviews_def r2 st1 ci)
qed



end
